theory Spec2Isabelle
  imports Main "HOL-Library.AList"
begin

section \<open>The OAS router middleware (src/middleware/oas-router.js)\<close>

text \<open>
  The middleware dispatches a request that was already matched to a path template and a
  method of the contract document: it resolves the controller and the operation
  identifier, wraps \<^verbatim>\<open>res.send\<close>, and calls the handler. The wrapped send passes
  every outgoing payload through \<^verbatim>\<open>checkResponse\<close>.

  What the file takes from outside is a parameter of the model: the JavaScript runtime's
  \<^verbatim>\<open>JSON.stringify\<close> and \<^verbatim>\<open>JSON.parse\<close>, the z-schema validator, the strictness
  switch of the configuration, and the module loader \<^verbatim>\<open>require\<close>.
\<close>

subsection \<open>JavaScript values and strings\<close>

text \<open>
  Payloads and schemas are JavaScript values. Numbers are kept to the integers: the
  middleware never computes with a payload, it hands it to the runtime and the validator.
\<close>

datatype jsval =
    JUndefined
  | JNull
  | JBool bool
  | JNum int
  | JStr string
  | JArr "jsval list"
  | JObj "(string \<times> jsval) list"

text \<open>
  What a function of the file can raise, and the one way it ends the process
  (\<^verbatim>\<open>process.exit()\<close> when the chosen controller cannot be loaded).
\<close>

datatype failure = TypeError | SyntaxError | ProcessExit

text \<open>
  String concatenation with a value that is a string or \<^verbatim>\<open>undefined\<close>
  (\<^verbatim>\<open>"  -data: " + data\<close>), and the conversion \<^verbatim>\<open>JSON.parse\<close> applies to its
  argument.
\<close>

definition js_to_string :: "string option \<Rightarrow> string" where
  "js_to_string v = (case v of None \<Rightarrow> ''undefined'' | Some t \<Rightarrow> t)"

text \<open>
  A status code is a non-negative integer; as a property key and in a message it is
  written in decimal.
\<close>

fun number_to_string :: "nat \<Rightarrow> string" where
  "number_to_string n =
     (if n < 10 then [''0123456789'' ! n]
      else number_to_string (n div 10) @ [''0123456789'' ! (n mod 10)])"

declare number_to_string.simps [simp del]

text \<open>\<^verbatim>\<open>str.split(sep)\<close> for a separator of one character: never the empty list.\<close>

fun js_split :: "char \<Rightarrow> string \<Rightarrow> string list" where
  "js_split sep [] = [[]]"
| "js_split sep (c # cs) =
     (if c = sep then [] # js_split sep cs
      else (case js_split sep cs of [] \<Rightarrow> [[c]] | w # ws \<Rightarrow> (c # w) # ws))"

text \<open>
  \<^verbatim>\<open>str.substring(indexStart, indexEnd)\<close>: both indices are clamped to the length and
  swapped when the first is the larger.
\<close>

definition substring :: "nat \<Rightarrow> nat \<Rightarrow> string \<Rightarrow> string" where
  "substring indexStart indexEnd str =
     (let a = min indexStart (length str);
          b = min indexEnd (length str)
      in take (max a b - min a b) (drop (min a b) str))"

text \<open>
  Case conversion on the ASCII letters; every other character is left as it is (strings
  are byte strings here, so the model says nothing about letters outside ASCII).
\<close>

definition upper_letters :: string where
  "upper_letters = ''ABCDEFGHIJKLMNOPQRSTUVWXYZ''"

definition lower_letters :: string where
  "lower_letters = ''abcdefghijklmnopqrstuvwxyz''"

definition toLowerCase_char :: "char \<Rightarrow> char" where
  "toLowerCase_char c =
     (case map_of (zip upper_letters lower_letters) c of None \<Rightarrow> c | Some d \<Rightarrow> d)"

definition toUpperCase_char :: "char \<Rightarrow> char" where
  "toUpperCase_char c =
     (case map_of (zip lower_letters upper_letters) c of None \<Rightarrow> c | Some d \<Rightarrow> d)"

definition toLowerCase :: "string \<Rightarrow> string" where
  "toLowerCase str = map toLowerCase_char str"

definition toUpperCase :: "string \<Rightarrow> string" where
  "toUpperCase str = map toUpperCase_char str"

subsection \<open>The contract document\<close>

text \<open>
  \<^verbatim>\<open>oasDoc.paths[requestedSpecPath][method]\<close> is an operation; its \<^verbatim>\<open>responses\<close>
  are keyed by the status code as a string. A response may have a \<^verbatim>\<open>content\<close>
  property, keyed by media type; a media type may have a \<^verbatim>\<open>schema\<close>. An absent
  property is \<open>None\<close>.
\<close>

record media_type =
  schema :: "jsval option"

record response_spec =
  content :: "(string \<times> media_type) list option"

record operation =
  operationId :: "string option"
  x_router_controller :: "string option"
  responses :: "(string \<times> response_spec) list"

record oas_doc =
  paths :: "(string \<times> (string \<times> operation) list) list"

text \<open>
  \<^verbatim>\<open>oasDoc.paths[requestedSpecPath][method]\<close>, as every use of it in the file goes on
  to read a property of the result: a path or a method that the document does not have
  gives \<^verbatim>\<open>undefined\<close>, and reading a property of that is a TypeError.
\<close>

definition operation_at :: "oas_doc \<Rightarrow> string \<Rightarrow> string \<Rightarrow> failure + operation" where
  "operation_at oasDoc requestedSpecPath method =
     (case map_of (paths oasDoc) requestedSpecPath of
        None \<Rightarrow> Inl TypeError
      | Some item \<Rightarrow>
          (case map_of item method of
             None \<Rightarrow> Inl TypeError
           | Some operation \<Rightarrow> Inr operation))"

subsection \<open>Naming policy\<close>

text \<open>
  \<^verbatim>\<open>resourceName\<close>: the second element of the path split at the slashes, its first
  character in upper case. A path with no slash has no second element, and
  \<^verbatim>\<open>resource.charAt\<close> raises.
\<close>

definition resourceName :: "string \<Rightarrow> failure + string" where
  "resourceName requestedSpecPath =
     (case js_split CHR ''/'' requestedSpecPath of
        _ # resource # _ \<Rightarrow> Inr (toUpperCase (take 1 resource) @ drop 1 resource)
      | _ \<Rightarrow> Inl TypeError)"

definition generateControllerName :: "string \<Rightarrow> failure + string" where
  "generateControllerName url =
     (case resourceName url of
        Inl e \<Rightarrow> Inl e
      | Inr r \<Rightarrow> Inr (r @ ''Controller''))"

definition nameMethod :: "string \<Rightarrow> string" where
  "nameMethod method =
     (if method = ''GET'' then ''list''
      else if method = ''POST'' then ''create''
      else if method = ''PUT'' then ''update''
      else ''delete'')"

definition generateOpId :: "oas_doc \<Rightarrow> string \<Rightarrow> string \<Rightarrow> failure + string" where
  "generateOpId oasDoc requestedSpecPath method =
     (case operation_at oasDoc requestedSpecPath method of
        Inl e \<Rightarrow> Inl e
      | Inr operation \<Rightarrow>
          (case operationId operation of
             Some oid \<Rightarrow> Inr oid
           | None \<Rightarrow>
               (case resourceName requestedSpecPath of
                  Inl e \<Rightarrow> Inl e
                | Inr r \<Rightarrow> Inr (nameMethod method @ r))))"

subsection \<open>Calling the handler by name\<close>

text \<open>
  A loaded controller module is an object whose properties are functions or further
  objects. A function is known by a handle. What a read finds for a name that the value
  does not define itself (through the prototype chain, and among the built-in properties
  of a function) belongs to the runtime and is the parameter \<open>inherited\<close>.
\<close>

datatype jsobject = Function nat | Object "(string \<times> jsobject) list"

text \<open>
  \<^verbatim>\<open>context[name]\<close>: reading a property of \<^verbatim>\<open>undefined\<close> raises; an own property
  comes before an inherited one; a name that is neither reads as \<^verbatim>\<open>undefined\<close>.
\<close>

fun get_property ::
  "(jsobject \<Rightarrow> string \<Rightarrow> jsobject option) \<Rightarrow> jsobject option \<Rightarrow> string
     \<Rightarrow> failure + jsobject option" where
  "get_property inherited None name = Inl TypeError"
| "get_property inherited (Some (Object props)) name =
     Inr (case map_of props name of
            Some v \<Rightarrow> Some v
          | None \<Rightarrow> inherited (Object props) name)"
| "get_property inherited (Some (Function f)) name = Inr (inherited (Function f) name)"

text \<open>The loop \<^verbatim>\<open>for (i = 0; i < namespaces.length; i++) context = context[namespaces[i]]\<close>.\<close>

fun walk_namespaces ::
  "(jsobject \<Rightarrow> string \<Rightarrow> jsobject option) \<Rightarrow> string list \<Rightarrow> jsobject option
     \<Rightarrow> failure + jsobject option" where
  "walk_namespaces inherited [] context = Inr context"
| "walk_namespaces inherited (n # ns) context =
     (case get_property inherited context n of
        Inl e \<Rightarrow> Inl e
      | Inr c \<Rightarrow> walk_namespaces inherited ns c)"

text \<open>
  A call of a handler: which function, on which object (\<^verbatim>\<open>this\<close>), with which
  arguments.
\<close>

record 'a invocation =
  callee :: nat
  this_object :: "jsobject option"
  call_arguments :: "'a list"

text \<open>
  \<^verbatim>\<open>context[func].apply(context, [req, res, next])\<close>: a TypeError when
  \<^verbatim>\<open>context\<close> is \<^verbatim>\<open>undefined\<close> or \<^verbatim>\<open>context[func]\<close> is not a function (an
  object that is not a function is taken to have no \<^verbatim>\<open>apply\<close> to call, and a
  function to have the built-in one). \<^verbatim>\<open>namespaces.pop()\<close> takes the last element
  of a list that is never empty.
\<close>

definition executeFunctionByName ::
  "(jsobject \<Rightarrow> string \<Rightarrow> jsobject option) \<Rightarrow> string \<Rightarrow> jsobject \<Rightarrow> 'a \<Rightarrow> 'a \<Rightarrow> 'a
     \<Rightarrow> failure + 'a invocation" where
  "executeFunctionByName inherited functionName context0 req res next =
     (let namespaces0 = js_split CHR ''.'' functionName;
          func = last namespaces0;
          namespaces = butlast namespaces0
      in case walk_namespaces inherited namespaces (Some context0) of
           Inl e \<Rightarrow> Inl e
         | Inr context \<Rightarrow>
             (case get_property inherited context func of
                Inl e \<Rightarrow> Inl e
              | Inr None \<Rightarrow> Inl TypeError
              | Inr (Some (Object props)) \<Rightarrow> Inl TypeError
              | Inr (Some (Function f)) \<Rightarrow>
                  Inr \<lparr>callee = f, this_object = context,
                       call_arguments = [req, res, next]\<rparr>))"

subsection \<open>The response, the logger and the collaborators\<close>

text \<open>
  The \<^verbatim>\<open>arguments\<close> object of a call of the wrapped send, which \<^verbatim>\<open>checkResponse\<close>
  receives as \<^verbatim>\<open>content\<close>. Its \<^verbatim>\<open>length\<close> is the number of values the call was
  made with and never changes, also when index 0 is assigned; \<open>given\<close> are those
  values, and \<open>index0\<close> is what \<^verbatim>\<open>content[0]\<close> holds by now (\<open>None\<close> is
  \<^verbatim>\<open>undefined\<close>).
\<close>

record arguments_object =
  given :: "jsval list"
  index0 :: "string option"

text \<open>
  What \<^verbatim>\<open>oldSend.apply(res, content)\<close> passes on: as many arguments as
  \<^verbatim>\<open>content.length\<close> says. A call made with no value passes none, whatever index 0
  holds; otherwise the first is \<^verbatim>\<open>content[0]\<close> and the others are as given.
\<close>

datatype send_arguments = NoArgument | Arguments "string option" "jsval list"

definition applied :: "arguments_object \<Rightarrow> send_arguments" where
  "applied arguments =
     (case given arguments of
        [] \<Rightarrow> NoArgument
      | a # others \<Rightarrow> Arguments (index0 arguments) others)"

text \<open>
  The state a response check reads and writes: the status code and the headers of
  \<^verbatim>\<open>res\<close>, the calls of the original send (each with the status code it finds on
  \<^verbatim>\<open>res\<close> and the arguments it is called with), and the lines given to the logger.
\<close>

datatype level = Debug | Info | Warning | Error

record state =
  statusCode :: nat
  headers :: "(string \<times> string) list"
  sent :: "(nat \<times> send_arguments) list"
  logged :: "(level \<times> string) list"

definition logger :: "level \<Rightarrow> string \<Rightarrow> state \<Rightarrow> state" where
  "logger lvl msg s = s\<lparr>logged := logged s @ [(lvl, msg)]\<rparr>"

text \<open>\<^verbatim>\<open>oldSend.apply(res, content)\<close>, \<^verbatim>\<open>res.status(code)\<close> and \<^verbatim>\<open>res.header(field, value)\<close>.\<close>

definition oldSend :: "arguments_object \<Rightarrow> state \<Rightarrow> state" where
  "oldSend arguments s = s\<lparr>sent := sent s @ [(statusCode s, applied arguments)]\<rparr>"

definition status :: "nat \<Rightarrow> state \<Rightarrow> state" where
  "status code s = s\<lparr>statusCode := code\<rparr>"

definition header :: "string \<Rightarrow> string \<Rightarrow> state \<Rightarrow> state" where
  "header field val s = s\<lparr>headers := AList.update field val (headers s)\<rparr>"

text \<open>
  How a response check ends: it returns, or it raises; either way with the state it
  has reached.
\<close>

datatype result = Done state | Threw failure state

fun state_of :: "result \<Rightarrow> state" where
  "state_of (Done s) = s"
| "state_of (Threw e s) = s"

text \<open>An error object of the validator; the file reads its \<^verbatim>\<open>message\<close> only.\<close>

record verror =
  message :: string

text \<open>
  The collaborators of \<^verbatim>\<open>checkResponse\<close>:
  \<^item> \<open>strict\<close> is \<^verbatim>\<open>config.strict\<close>;
  \<^item> \<open>stringify\<close> is \<^verbatim>\<open>JSON.stringify\<close>, whose result is a string or
    \<^verbatim>\<open>undefined\<close> (a \<open>jsval\<close> is a finite tree, so it does not raise);
  \<^item> \<open>parse\<close> is \<^verbatim>\<open>JSON.parse\<close> on a string, \<open>None\<close> when it raises a
    SyntaxError;
  \<^item> \<open>validate\<close> is the \<^verbatim>\<open>err\<close> that \<^verbatim>\<open>validator.validate(data, schema, callback)\<close>
    gives to its callback, \<open>None\<close> when it is not truthy. The validator is taken to
    call the callback once, and the callback's effects are those of the check.
\<close>

record env =
  strict :: bool
  stringify :: "jsval \<Rightarrow> string option"
  parse :: "string \<Rightarrow> jsval option"
  validate :: "jsval \<Rightarrow> jsval \<Rightarrow> verror list option"

subsection \<open>Checking a response\<close>

fun processErr_loop :: "verror list \<Rightarrow> string \<Rightarrow> string" where
  "processErr_loop [] errors = errors"
| "processErr_loop (e # err) errors = processErr_loop err (errors @ ''. '' @ message e)"

definition processErr :: "verror list \<Rightarrow> string" where
  "processErr err =
     (let errors = processErr_loop err [] in substring 2 (length errors) errors)"

text \<open>
  \<^verbatim>\<open>oasDoc.paths[requestedSpecPath][method].responses[code]\<close>: \<open>Inr None\<close> when the
  operation declares no response for the code.
\<close>

definition responseCodeSection ::
  "oas_doc \<Rightarrow> string \<Rightarrow> string \<Rightarrow> nat \<Rightarrow> failure + response_spec option" where
  "responseCodeSection oasDoc requestedSpecPath method code =
     (case operation_at oasDoc requestedSpecPath method of
        Inl e \<Rightarrow> Inl e
      | Inr operation \<Rightarrow> Inr (map_of (responses operation) (number_to_string code)))"

text \<open>
  \<^verbatim>\<open>responseCodeSection.content['application/json'].schema\<close>, once the media type
  is there: the schema, or \<^verbatim>\<open>undefined\<close> when the media type has none.
\<close>

definition schema_value :: "media_type \<Rightarrow> jsval" where
  "schema_value json = (case schema json of None \<Rightarrow> JUndefined | Some v \<Rightarrow> v)"

text \<open>The six \<^verbatim>\<open>logger.debug\<close> lines at the head of \<^verbatim>\<open>checkResponse\<close>.\<close>

definition debug_lines :: "nat \<Rightarrow> string \<Rightarrow> string \<Rightarrow> string option \<Rightarrow> state \<Rightarrow> state" where
  "debug_lines code method requestedSpecPath data s =
     logger Debug (''  -data: '' @ js_to_string data)
      (logger Debug (''  -requestedSpecPath: '' @ requestedSpecPath)
        (logger Debug (''  -method: '' @ method)
          (logger Debug ''  -oasDoc: [object Object]''
            (logger Debug (''  -code: '' @ number_to_string code)
              (logger Debug ''Processing at checkResponse:'' s)))))"

text \<open>
  \<^verbatim>\<open>checkResponse(res, oldSend, oasDoc, method, requestedSpecPath, content)\<close>, where
  \<^verbatim>\<open>content\<close> is the \<open>arguments\<close> object of the wrapped send and \<^verbatim>\<open>data\<close> is its
  index 0. The branches are those of the source, in its order; the three places that can
  raise (the lookup of the response section, the read of
  \<^verbatim>\<open>content['application/json'].schema\<close>, and \<^verbatim>\<open>JSON.parse\<close>) all come before
  any call of the original send.
\<close>

definition checkResponse ::
  "env \<Rightarrow> oas_doc \<Rightarrow> string \<Rightarrow> string \<Rightarrow> arguments_object \<Rightarrow> state \<Rightarrow> result" where
  "checkResponse cfg oasDoc method requestedSpecPath arguments s =
     (let code = statusCode s;
          data0 = index0 arguments;
          s1 = debug_lines code method requestedSpecPath data0 s
      in case responseCodeSection oasDoc requestedSpecPath method code of
           Inl e \<Rightarrow> Threw e s1
         | Inr None \<Rightarrow>
             (let msg = ''Wrong response code: '' @ number_to_string code
              in if strict cfg
                 then Done (oldSend
                        (arguments\<lparr>index0 := stringify cfg (JObj [(''message'', JStr msg)])\<rparr>)
                        (logger Error msg s1))
                 else Done (oldSend arguments (logger Warning msg s1)))
         | Inr (Some section) \<Rightarrow>
             (case content section of
                None \<Rightarrow> Done (oldSend arguments s1)
              | Some media \<Rightarrow>
                  (case map_of media ''application/json'' of
                     None \<Rightarrow> Threw TypeError s1
                   | Some json \<Rightarrow>
                       (let validSchema = schema_value json;
                            s2 = logger Info (''Schema to use for validation: ''
                                   @ js_to_string (stringify cfg validSchema)) s1
                        in case parse cfg (js_to_string data0) of
                             None \<Rightarrow> Threw SyntaxError s2
                           | Some data \<Rightarrow>
                               (let msg = (case validate cfg data validSchema of
                                             None \<Rightarrow> []
                                           | Some err \<Rightarrow>
                                               ''Wrong data in the response. '' @ processErr err)
                                in if length msg > 0
                                   then (if strict cfg
                                         then Done (oldSend
                                                (arguments\<lparr>index0 := stringify cfg
                                                   (JObj [(''message'', JStr msg),
                                                          (''content'', data)])\<rparr>)
                                                (status 400 (logger Error msg s2)))
                                         else Done (oldSend arguments (logger Warning msg s2)))
                                   else Done (oldSend arguments s2))))))"

text \<open>
  The function that \<^verbatim>\<open>OASRouter\<close> installs as \<^verbatim>\<open>res.send\<close>, called with the
  values \<open>args\<close>: it assigns the serialization of \<^verbatim>\<open>arguments[0]\<close> (which is
  \<^verbatim>\<open>undefined\<close> in a call with no value) to index 0, sets the content type, and
  checks the response.
\<close>

definition first_argument :: "jsval list \<Rightarrow> jsval" where
  "first_argument args = (case args of [] \<Rightarrow> JUndefined | a # others \<Rightarrow> a)"

definition res_send ::
  "env \<Rightarrow> oas_doc \<Rightarrow> string \<Rightarrow> string \<Rightarrow> jsval list \<Rightarrow> state \<Rightarrow> result" where
  "res_send cfg oasDoc method requestedSpecPath args s =
     checkResponse cfg oasDoc method requestedSpecPath
       \<lparr>given = args, index0 = stringify cfg (first_argument args)\<rparr>
       (header ''Content-Type'' ''application/json;charset=utf-8'' s)"

subsection \<open>Dispatch\<close>

text \<open>
  \<^verbatim>\<open>require(path.join(location, name))\<close> is the parameter \<open>load\<close>: the module, or
  \<open>None\<close> when loading raises. The log lines of the dispatch are not modelled.
\<close>

definition existsController ::
  "(string \<Rightarrow> string \<Rightarrow> jsobject option) \<Rightarrow> string \<Rightarrow> string \<Rightarrow> bool" where
  "existsController load locationOfControllers controllerName =
     (case load locationOfControllers controllerName of None \<Rightarrow> False | Some m \<Rightarrow> True)"

record request =
  req_method :: string
  req_path :: string

text \<open>
  The choice of the controller name at the head of \<^verbatim>\<open>OASRouter\<close>: the operation's
  \<^verbatim>\<open>x-router-controller\<close>; else, when a controller of the name generated from
  \<^verbatim>\<open>req.path\<close> exists, the name generated from \<^verbatim>\<open>requestedSpecPath\<close>; else
  \<^verbatim>\<open>"Default"\<close>.
\<close>

definition resolveController ::
  "(string \<Rightarrow> string \<Rightarrow> jsobject option) \<Rightarrow> string \<Rightarrow> request \<Rightarrow> oas_doc \<Rightarrow> string
     \<Rightarrow> string \<Rightarrow> failure + string" where
  "resolveController load controllers req oasDoc requestedSpecPath method =
     (case operation_at oasDoc requestedSpecPath method of
        Inl e \<Rightarrow> Inl e
      | Inr operation \<Rightarrow>
          (case x_router_controller operation of
             Some c \<Rightarrow> Inr c
           | None \<Rightarrow>
               (case generateControllerName (req_path req) of
                  Inl e \<Rightarrow> Inl e
                | Inr probed \<Rightarrow>
                    if existsController load controllers probed
                    then generateControllerName requestedSpecPath
                    else Inr ''Default'')))"

text \<open>
  What a dispatch comes to: the controller name and the operation identifier it
  resolved, the method the installed interceptor checks responses with, and the call of
  the handler.
\<close>

datatype handler_argument = ReqObject | ResObject | NextFunction

record dispatch =
  resolved_controller :: string
  resolved_opID :: string
  interceptor_method :: string
  handler_call :: "handler_argument invocation"

definition OASRouter ::
  "(jsobject \<Rightarrow> string \<Rightarrow> jsobject option) \<Rightarrow> (string \<Rightarrow> string \<Rightarrow> jsobject option)
     \<Rightarrow> string \<Rightarrow> request \<Rightarrow> oas_doc \<Rightarrow> string \<Rightarrow> failure + dispatch" where
  "OASRouter inherited load controllers req oasDoc requestedSpecPath =
     (let method = toLowerCase (req_method req)
      in case resolveController load controllers req oasDoc requestedSpecPath method of
           Inl e \<Rightarrow> Inl e
         | Inr controllerName \<Rightarrow>
             (case generateOpId oasDoc requestedSpecPath method of
                Inl e \<Rightarrow> Inl e
              | Inr opID \<Rightarrow>
                  (case load controllers controllerName of
                     None \<Rightarrow> Inl ProcessExit
                   | Some controller \<Rightarrow>
                       (case executeFunctionByName inherited opID controller
                               ReqObject ResObject NextFunction of
                          Inl e \<Rightarrow> Inl e
                        | Inr call \<Rightarrow>
                            Inr \<lparr>resolved_controller = controllerName,
                                 resolved_opID = opID,
                                 interceptor_method = method,
                                 handler_call = call\<rparr>))))"

subsection \<open>The specification's words\<close>

text \<open>
  Two notions of the specification, defined on their own so that the code can be compared
  with them: strings "joined by" a separator, with no separator before the first; and the
  "nested property" of an object along a list of names.
\<close>

fun joined_by :: "string \<Rightarrow> string list \<Rightarrow> string" where
  "joined_by sep [] = []"
| "joined_by sep [x] = x"
| "joined_by sep (x # y # ys) = x @ sep @ joined_by sep (y # ys)"

fun nested_property :: "jsobject \<Rightarrow> string list \<Rightarrow> jsobject option" where
  "nested_property obj [] = Some obj"
| "nested_property (Object props) (n # ns) =
     (case map_of props n of None \<Rightarrow> None | Some v \<Rightarrow> nested_property v ns)"
| "nested_property (Function f) (n # ns) = None"

subsection \<open>Scenarios\<close>

text \<open>
  A contract document, a controllers directory and collaborators to run the model on.
  \<open>scenario_stringify\<close> and \<open>scenario_parse\<close> are \<^verbatim>\<open>JSON.stringify\<close> and
  \<^verbatim>\<open>JSON.parse\<close> on the values of the scenarios and have no entry for any other;
  \<open>scenario_validate\<close> reports what the validator reports for \<open>id_schema\<close> on the two
  payloads that break it, and for a schema that is \<^verbatim>\<open>undefined\<close>: there z-schema hands
  its callback an Error, which has no \<^verbatim>\<open>length\<close>, so \<^verbatim>\<open>processErr\<close> finds no
  message in it. \<open>scenario_inherited\<close> is the part of the built-in properties that the
  scenarios read.
\<close>

definition id_schema :: jsval where
  "id_schema =
     JObj [(''type'', JStr ''object''),
           (''required'', JArr [JStr ''id'']),
           (''properties'', JObj [(''id'', JObj [(''type'', JStr ''number'')])])]"

definition petstore :: oas_doc where
  "petstore = \<lparr>paths =
     [(''/pets'',
        [(''get'',
            \<lparr>operationId = None, x_router_controller = None,
             responses =
               [(''200'', \<lparr>content = Some [(''application/json'', \<lparr>schema = Some id_schema\<rparr>)]\<rparr>),
                (''500'', \<lparr>content = None\<rparr>)]\<rparr>),
         (''post'',
            \<lparr>operationId = Some ''addPet'', x_router_controller = Some ''petsApi'',
             responses = [(''201'', \<lparr>content = None\<rparr>)]\<rparr>),
         (''delete'',
            \<lparr>operationId = Some ''admin.audit.purge'',
             x_router_controller = Some ''PetsController'',
             responses = [(''204'', \<lparr>content = None\<rparr>)]\<rparr>)]),
      (''/notes'',
        [(''get'',
            \<lparr>operationId = None, x_router_controller = None,
             responses =
               [(''200'', \<lparr>content = Some [(''text/plain'',
                              \<lparr>schema = Some (JObj [(''type'', JStr ''string'')])\<rparr>)]\<rparr>)]\<rparr>),
         (''post'',
            \<lparr>operationId = None, x_router_controller = None,
             responses =
               [(''200'', \<lparr>content = Some [(''application/json'', \<lparr>schema = None\<rparr>)]\<rparr>)]\<rparr>)]),
      (''/{tenant}/items'',
        [(''get'',
            \<lparr>operationId = None, x_router_controller = None,
             responses = [(''200'', \<lparr>content = None\<rparr>)]\<rparr>)]),
      (''/widgets/{id}'',
        [(''patch'',
            \<lparr>operationId = None, x_router_controller = None,
             responses = [(''200'', \<lparr>content = None\<rparr>)]\<rparr>)])]\<rparr>"

definition scenario_stringify :: "jsval \<Rightarrow> string option" where
  "scenario_stringify v =
     (if v = JObj [(''id'', JStr ''x'')] then Some ''{\"id\":\"x\"}''
      else if v = JObj [(''id'', JNum 7)] then Some ''{\"id\":7}''
      else if v = JObj [] then Some ''{}''
      else if v = JStr ''hello'' then Some ''\"hello\"''
      else if v = id_schema
        then Some ''{\"type\":\"object\",\"required\":[\"id\"],\"properties\":{\"id\":{\"type\":\"number\"}}}''
      else if v = JObj [(''message'', JStr ''Wrong data in the response. ''),
                 (''content'', JObj [])]
        then Some ''{\"message\":\"Wrong data in the response. \",\"content\":{}}''
      else if v = JObj [(''message'', JStr ''Wrong response code: 404'')]
        then Some ''{\"message\":\"Wrong response code: 404\"}''
      else if v = JObj [(''message'',
                  JStr ''Wrong data in the response. Expected type number but found type string''),
                 (''content'', JObj [(''id'', JStr ''x'')])]
        then Some ''{\"message\":\"Wrong data in the response. Expected type number but found type string\",\"content\":{\"id\":\"x\"}}''
      else None)"

definition scenario_parse :: "string \<Rightarrow> jsval option" where
  "scenario_parse text =
     (if text = ''{\"id\":\"x\"}'' then Some (JObj [(''id'', JStr ''x'')])
      else if text = ''{\"id\":7}'' then Some (JObj [(''id'', JNum 7)])
      else if text = ''{}'' then Some (JObj [])
      else if text = ''\"hello\"'' then Some (JStr ''hello'')
      else None)"

definition scenario_validate :: "jsval \<Rightarrow> jsval \<Rightarrow> verror list option" where
  "scenario_validate data sch =
     (if sch = id_schema \<and> data = JObj [(''id'', JStr ''x'')]
      then Some [\<lparr>message = ''Expected type number but found type string''\<rparr>]
      else if sch = id_schema \<and> data = JObj []
      then Some [\<lparr>message = ''Missing required property: id''\<rparr>]
      else if sch = JUndefined then Some []
      else None)"

definition scenario_env :: "bool \<Rightarrow> env" where
  "scenario_env flag =
     \<lparr>strict = flag, stringify = scenario_stringify, parse = scenario_parse,
      validate = scenario_validate\<rparr>"

definition fresh_response :: "nat \<Rightarrow> state" where
  "fresh_response code = \<lparr>statusCode = code, headers = [], sent = [], logged = []\<rparr>"

definition pets_module :: jsobject where
  "pets_module =
     Object [(''listPets'', Function 1),
             (''deletePets'', Function 2),
             (''admin'', Object [(''audit'', Object [(''purge'', Function 3)])])]"

definition scenario_inherited :: "jsobject \<Rightarrow> string \<Rightarrow> jsobject option" where
  "scenario_inherited v name =
     (case v of
        Object props \<Rightarrow> if name = ''toString'' then Some (Function 90) else None
      | Function f \<Rightarrow>
          if name = ''call'' then Some (Function 91)
          else if name = ''toString'' then Some (Function 92)
          else None)"

definition acme_module :: jsobject where
  "acme_module = Object [(''listItems'', Function 4), (''deleteItems'', Function 5)]"

definition scenario_load :: "string \<Rightarrow> string \<Rightarrow> jsobject option" where
  "scenario_load location name =
     (if location = ''./controllers'' \<and> name = ''PetsController'' then Some pets_module
      else if location = ''./controllers'' \<and> name = ''AcmeController'' then Some acme_module
      else None)"

section \<open>Properties\<close>

subsection \<open>Evaluation and helper lemmas\<close>

lemma number_to_string_digit: "n < 10 \<Longrightarrow> number_to_string n = [''0123456789'' ! n]"
  by (subst number_to_string.simps) simp

lemma number_to_string_step:
  "\<not> n < 10 \<Longrightarrow>
     number_to_string n = number_to_string (n div 10) @ [''0123456789'' ! (n mod 10)]"
  by (subst number_to_string.simps) simp

lemmas check_defs = checkResponse_def debug_lines_def logger_def oldSend_def status_def
  header_def applied_def Let_def

lemmas lookup_defs = responseCodeSection_def operation_at_def number_to_string_digit
  number_to_string_step

lemmas scenario_defs = petstore_def scenario_env_def scenario_stringify_def scenario_parse_def
  scenario_validate_def fresh_response_def id_schema_def js_to_string_def schema_value_def
  first_argument_def

lemmas naming_defs = resourceName_def generateControllerName_def generateOpId_def
  nameMethod_def toUpperCase_def toUpperCase_char_def toLowerCase_def toLowerCase_char_def
  upper_letters_def lower_letters_def

lemma js_split_no_separator: "sep \<notin> set str \<Longrightarrow> js_split sep str = [str]"
  by (induction str) auto

lemma js_split_append:
  "sep \<notin> set x \<Longrightarrow> js_split sep (x @ sep # rest) = x # js_split sep rest"
  by (induction x) auto

lemma js_split_joined:
  "names \<noteq> [] \<Longrightarrow> \<forall>n \<in> set names. sep \<notin> set n \<Longrightarrow>
     js_split sep (joined_by [sep] names) = names"
proof (induction names rule: induct_list012)
  case 1
  then show ?case by simp
next
  case (2 x)
  then show ?case by (simp add: js_split_no_separator)
next
  case (3 x y zs)
  then show ?case by (simp add: js_split_append)
qed

text \<open>
  Along names that the objects define themselves, the loop reaches the nested property,
  whatever the runtime would find for other names.
\<close>

lemma walk_namespaces_nested:
  "nested_property obj ns = Some target \<Longrightarrow>
     walk_namespaces inherited ns (Some obj) = Inr (Some target)"
proof (induction obj ns rule: nested_property.induct)
  case (1 obj)
  then show ?case by simp
next
  case (2 props n ns)
  then show ?case by (auto split: option.splits)
next
  case (3 f n ns)
  then show ?case by simp
qed

lemma executeFunctionByName_nested:
  assumes "\<forall>n \<in> set (namespaces @ [func]). CHR ''.'' \<notin> set n"
    and "nested_property controller namespaces = Some (Object props)"
    and "map_of props func = Some (Function f)"
  shows "executeFunctionByName inherited (joined_by ''.'' (namespaces @ [func])) controller
           req res next =
         Inr \<lparr>callee = f, this_object = Some (Object props),
              call_arguments = [req, res, next]\<rparr>"
proof -
  have split: "js_split CHR ''.'' (joined_by ''.'' (namespaces @ [func])) = namespaces @ [func]"
    using assms(1) by (intro js_split_joined) auto
  have walk: "walk_namespaces inherited namespaces (Some controller) = Inr (Some (Object props))"
    using assms(2) by (rule walk_namespaces_nested)
  show ?thesis
    unfolding executeFunctionByName_def Let_def split using walk assms(3) by simp
qed

text \<open>
  Once the controller name and the operation identifier are resolved and the controller
  is loaded, the dispatch is the call of the handler by that identifier on that module.
\<close>

lemma OASRouter_calls:
  assumes "resolveController load controllers request oasDoc requestedSpecPath
             (toLowerCase (req_method request)) = Inr controllerName"
    and "generateOpId oasDoc requestedSpecPath (toLowerCase (req_method request)) = Inr opID"
    and "load controllers controllerName = Some loaded"
  shows "OASRouter inherited load controllers request oasDoc requestedSpecPath =
           (case executeFunctionByName inherited opID loaded ReqObject ResObject NextFunction of
              Inl e \<Rightarrow> Inl e
            | Inr call \<Rightarrow>
                Inr \<lparr>resolved_controller = controllerName, resolved_opID = opID,
                     interceptor_method = toLowerCase (req_method request),
                     handler_call = call\<rparr>)"
  using assms by (simp add: OASRouter_def Let_def)

lemma processErr_loop_append:
  "processErr_loop err errors = errors @ concat (map (\<lambda>e. ''. '' @ message e) err)"
  by (induction err arbitrary: errors) auto

lemma concat_separated:
  "concat (map (\<lambda>e. sep @ message e) err) =
     (if err = [] then [] else sep @ joined_by sep (map message err))"
  by (induction err rule: induct_list012) auto

lemma substring_from: "substring n (length str) str = drop n str"
  by (simp add: substring_def Let_def min_def max_def)

lemma processErr_joined: "processErr err = joined_by ''. '' (map message err)"
proof -
  have "processErr err = drop 2 (concat (map (\<lambda>e. ''. '' @ message e) err))"
    unfolding processErr_def Let_def processErr_loop_append substring_from by simp
  also have "\<dots> = joined_by ''. '' (map message err)"
    unfolding concat_separated by simp
  finally show ?thesis .
qed

lemma toLowerCase_char_not_upper: "toLowerCase_char c \<notin> set upper_letters"
  unfolding toLowerCase_char_def upper_letters_def lower_letters_def
  by (simp split: option.splits if_splits)

lemma toLowerCase_no_upper: "c \<in> set upper_letters \<Longrightarrow> c \<notin> set (toLowerCase str)"
  using toLowerCase_char_not_upper by (auto simp add: toLowerCase_def)

text \<open>
  \<^verbatim>\<open>OASRouter\<close> gives \<^verbatim>\<open>nameMethod\<close> the method in lower case, which is none of
  the three names it compares with.
\<close>

lemma nameMethod_toLowerCase: "nameMethod (toLowerCase str) = ''delete''"
proof -
  have "toLowerCase str \<noteq> ''GET''"
    using toLowerCase_no_upper [of "CHR ''G''" str] by (auto simp add: upper_letters_def)
  moreover have "toLowerCase str \<noteq> ''POST''"
    using toLowerCase_no_upper [of "CHR ''P''" str] by (auto simp add: upper_letters_def)
  moreover have "toLowerCase str \<noteq> ''PUT''"
    using toLowerCase_no_upper [of "CHR ''P''" str] by (auto simp add: upper_letters_def)
  ultimately show ?thesis by (simp add: nameMethod_def)
qed

lemma derived_opID_in_dispatch:
  assumes "operation_at oasDoc requestedSpecPath (toLowerCase m) = Inr operation"
    and "operationId operation = None"
    and "resourceName requestedSpecPath = Inr r"
  shows "generateOpId oasDoc requestedSpecPath (toLowerCase m) = Inr (''delete'' @ r)"
  using assms by (simp add: generateOpId_def nameMethod_toLowerCase)

text \<open>
  A response check that returns has called the original send once; one that raises has
  not called it.
\<close>

lemma checkResponse_sends:
  "(case checkResponse cfg oasDoc method requestedSpecPath arguments s of
      Done s' \<Rightarrow> length (sent s') = Suc (length (sent s))
    | Threw e s' \<Rightarrow> sent s' = sent s)"
  by (simp add: check_defs split: sum.splits option.splits)

text \<open>
  A call with no value, which leaves index 0 \<^verbatim>\<open>undefined\<close>, under a response with a
  JSON schema: \<^verbatim>\<open>JSON.parse\<close> raises before any call of the original send.
\<close>

lemma send_skipped_on_undefined_payload:
  "res_send (scenario_env flag) petstore ''get'' ''/pets'' [] (fresh_response 200) =
     Threw SyntaxError
       (logger Info
          ''Schema to use for validation: {\"type\":\"object\",\"required\":[\"id\"],\"properties\":{\"id\":{\"type\":\"number\"}}}''
          (debug_lines 200 ''get'' ''/pets'' None
             (header ''Content-Type'' ''application/json;charset=utf-8'' (fresh_response 200)))) \<and>
   sent (state_of (res_send (scenario_env flag) petstore ''get'' ''/pets'' []
     (fresh_response 200))) = []"
  by (simp add: res_send_def check_defs scenario_defs lookup_defs)

text \<open>
  An undeclared status code, for a call of the wrapped send made with at least one value:
  in strict mode the replacement takes the place of the first argument, otherwise the
  arguments go on as they are.
\<close>

lemma undeclared_status_code_with_argument:
  assumes "responseCodeSection oasDoc requestedSpecPath method (statusCode s) = Inr None"
    and "given arguments = a # others"
  shows "(strict cfg \<longrightarrow>
           (\<exists>s'. checkResponse cfg oasDoc method requestedSpecPath arguments s = Done s' \<and>
              sent s' = sent s @ [(statusCode s, Arguments (stringify cfg (JObj [(''message'',
                  JStr (''Wrong response code: '' @ number_to_string (statusCode s)))])) others)] \<and>
              statusCode s' = statusCode s \<and>
              logged s' = logged (debug_lines (statusCode s) method requestedSpecPath
                    (index0 arguments) s)
                 @ [(Error, ''Wrong response code: '' @ number_to_string (statusCode s))])) \<and>
         (\<not> strict cfg \<longrightarrow>
           (\<exists>s'. checkResponse cfg oasDoc method requestedSpecPath arguments s = Done s' \<and>
              sent s' = sent s @ [(statusCode s, Arguments (index0 arguments) others)] \<and>
              statusCode s' = statusCode s \<and>
              logged s' = logged (debug_lines (statusCode s) method requestedSpecPath
                    (index0 arguments) s)
                 @ [(Warning, ''Wrong response code: '' @ number_to_string (statusCode s))]))"
  using assms by (simp add: check_defs)

text \<open>
  The same for a call made with no value: in either mode the original send is called
  with no argument, and in strict mode the replacement assigned to index 0 is not passed.
\<close>

lemma undeclared_status_code_without_argument:
  assumes "responseCodeSection oasDoc requestedSpecPath method (statusCode s) = Inr None"
    and "given arguments = []"
  shows "\<exists>s'. checkResponse cfg oasDoc method requestedSpecPath arguments s = Done s' \<and>
           sent s' = sent s @ [(statusCode s, NoArgument)] \<and>
           statusCode s' = statusCode s"
  using assms by (simp add: check_defs)

text \<open>
  A response declared with no \<^verbatim>\<open>content\<close> property is passed through: in either mode
  the check returns after one call of the original send with the arguments as they are,
  and logs no warning and no error.
\<close>

lemma no_content_passes_through:
  assumes "responseCodeSection oasDoc requestedSpecPath method (statusCode s) = Inr (Some section)"
    and "content section = None"
  shows "\<exists>s'. checkResponse cfg oasDoc method requestedSpecPath arguments s = Done s' \<and>
           sent s' = sent s @ [(statusCode s, applied arguments)] \<and>
           statusCode s' = statusCode s \<and>
           logged s' = logged (debug_lines (statusCode s) method requestedSpecPath
              (index0 arguments) s)"
  using assms by (simp add: check_defs)

text \<open>The three steps of the choice of a controller name.\<close>

lemma resolveController_override:
  assumes "operation_at oasDoc requestedSpecPath method = Inr operation"
    and "x_router_controller operation = Some c"
  shows "resolveController load controllers req oasDoc requestedSpecPath method = Inr c"
  using assms by (simp add: resolveController_def)

lemma resolveController_probed:
  assumes "operation_at oasDoc requestedSpecPath method = Inr operation"
    and "x_router_controller operation = None"
    and "generateControllerName (req_path req) = Inr probed"
    and "existsController load controllers probed"
  shows "resolveController load controllers req oasDoc requestedSpecPath method =
           generateControllerName requestedSpecPath"
  using assms by (simp add: resolveController_def)

lemma resolveController_default:
  assumes "operation_at oasDoc requestedSpecPath method = Inr operation"
    and "x_router_controller operation = None"
    and "generateControllerName (req_path req) = Inr probed"
    and "\<not> existsController load controllers probed"
  shows "resolveController load controllers req oasDoc requestedSpecPath method = Inr ''Default''"
  using assms by (simp add: resolveController_def)

subsection \<open>The method-naming function\<close>

text \<open>
  C9. \<^verbatim>\<open>nameMethod\<close> maps \<^verbatim>\<open>"GET"\<close> to \<^verbatim>\<open>"list"\<close>, \<^verbatim>\<open>"POST"\<close> to
  \<^verbatim>\<open>"create"\<close>, \<^verbatim>\<open>"PUT"\<close> to \<^verbatim>\<open>"update"\<close>, and every other string, among them
  \<^verbatim>\<open>"DELETE"\<close> and \<^verbatim>\<open>"PATCH"\<close>, to \<^verbatim>\<open>"delete"\<close>.
\<close>

theorem nameMethod_mapping:
  "nameMethod ''GET'' = ''list'' \<and> nameMethod ''POST'' = ''create'' \<and>
   nameMethod ''PUT'' = ''update'' \<and> nameMethod ''DELETE'' = ''delete'' \<and>
   nameMethod ''PATCH'' = ''delete'' \<and>
   (\<forall>method. method \<noteq> ''GET'' \<and> method \<noteq> ''POST'' \<and> method \<noteq> ''PUT''
      \<longrightarrow> nameMethod method = ''delete'')"
  by (simp add: nameMethod_def)

theorem nameMethod_mapping_witness:
  "nameMethod ''OPTIONS'' = ''delete'' \<and> nameMethod ''get'' = ''delete''"
  using nameMethod_mapping by simp

subsection \<open>Calling the handler\<close>

text \<open>
  C10. The operation identifier is split at the dots; the names before the last are
  walked as nested properties of the controller module, and the function that the last
  name gives on the object reached is called on that object with the three arguments
  request, response and continuation. For an identifier with no dot this is the call
  \<^verbatim>\<open>controller[opID](req, res, next)\<close>. And this is what a dispatch does with the
  identifier it resolved and the controller it loaded: when the controller name resolves,
  the identifier resolves to such a dotted name, and the module of that name loads and
  has the function at the nested property, the dispatch is the call of that function on
  the object reached, with request, response and continuation.
\<close>

theorem handler_called_by_dotted_name:
  "((\<forall>n \<in> set (namespaces @ [func]). CHR ''.'' \<notin> set n) \<and>
    nested_property controller namespaces = Some (Object props) \<and>
    map_of props func = Some (Function f) \<longrightarrow>
      executeFunctionByName inherited (joined_by ''.'' (namespaces @ [func])) controller
          req res next =
        Inr \<lparr>callee = f, this_object = Some (Object props),
             call_arguments = [req, res, next]\<rparr>) \<and>
   (CHR ''.'' \<notin> set opID \<and> map_of cprops opID = Some (Function g) \<longrightarrow>
      executeFunctionByName inherited opID (Object cprops) req res next =
        Inr \<lparr>callee = g, this_object = Some (Object cprops),
             call_arguments = [req, res, next]\<rparr>) \<and>
   (resolveController load controllers request oasDoc requestedSpecPath
        (toLowerCase (req_method request)) = Inr controllerName \<and>
    generateOpId oasDoc requestedSpecPath (toLowerCase (req_method request)) =
        Inr (joined_by ''.'' (walked @ [leaf])) \<and>
    load controllers controllerName = Some loaded \<and>
    (\<forall>n \<in> set (walked @ [leaf]). CHR ''.'' \<notin> set n) \<and>
    nested_property loaded walked = Some (Object lprops) \<and>
    map_of lprops leaf = Some (Function h) \<longrightarrow>
      OASRouter inherited load controllers request oasDoc requestedSpecPath =
        Inr \<lparr>resolved_controller = controllerName,
             resolved_opID = joined_by ''.'' (walked @ [leaf]),
             interceptor_method = toLowerCase (req_method request),
             handler_call =
               \<lparr>callee = h, this_object = Some (Object lprops),
                call_arguments = [ReqObject, ResObject, NextFunction]\<rparr>\<rparr>)"
proof (intro conjI impI)
  assume a: "(\<forall>n \<in> set (namespaces @ [func]). CHR ''.'' \<notin> set n) \<and>
    nested_property controller namespaces = Some (Object props) \<and>
    map_of props func = Some (Function f)"
  then show "executeFunctionByName inherited (joined_by ''.'' (namespaces @ [func])) controller
          req res next =
        Inr \<lparr>callee = f, this_object = Some (Object props),
             call_arguments = [req, res, next]\<rparr>"
    by (intro executeFunctionByName_nested) simp_all
next
  assume b: "CHR ''.'' \<notin> set opID \<and> map_of cprops opID = Some (Function g)"
  then have "js_split CHR ''.'' opID = [opID]"
    by (simp add: js_split_no_separator)
  then show "executeFunctionByName inherited opID (Object cprops) req res next =
        Inr \<lparr>callee = g, this_object = Some (Object cprops),
             call_arguments = [req, res, next]\<rparr>"
    using b by (simp add: executeFunctionByName_def)
next
  assume c: "resolveController load controllers request oasDoc requestedSpecPath
        (toLowerCase (req_method request)) = Inr controllerName \<and>
    generateOpId oasDoc requestedSpecPath (toLowerCase (req_method request)) =
        Inr (joined_by ''.'' (walked @ [leaf])) \<and>
    load controllers controllerName = Some loaded \<and>
    (\<forall>n \<in> set (walked @ [leaf]). CHR ''.'' \<notin> set n) \<and>
    nested_property loaded walked = Some (Object lprops) \<and>
    map_of lprops leaf = Some (Function h)"
  then have call: "executeFunctionByName inherited (joined_by ''.'' (walked @ [leaf])) loaded
      ReqObject ResObject NextFunction =
        Inr \<lparr>callee = h, this_object = Some (Object lprops),
             call_arguments = [ReqObject, ResObject, NextFunction]\<rparr>"
    by (intro executeFunctionByName_nested) simp_all
  from c have "OASRouter inherited load controllers request oasDoc requestedSpecPath =
      (case executeFunctionByName inherited (joined_by ''.'' (walked @ [leaf])) loaded
              ReqObject ResObject NextFunction of
         Inl e \<Rightarrow> Inl e
       | Inr call \<Rightarrow>
           Inr \<lparr>resolved_controller = controllerName,
                resolved_opID = joined_by ''.'' (walked @ [leaf]),
                interceptor_method = toLowerCase (req_method request),
                handler_call = call\<rparr>)"
    by (intro OASRouter_calls) simp_all
  with call show "OASRouter inherited load controllers request oasDoc requestedSpecPath =
        Inr \<lparr>resolved_controller = controllerName,
             resolved_opID = joined_by ''.'' (walked @ [leaf]),
             interceptor_method = toLowerCase (req_method request),
             handler_call =
               \<lparr>callee = h, this_object = Some (Object lprops),
                call_arguments = [ReqObject, ResObject, NextFunction]\<rparr>\<rparr>"
    by simp
qed

theorem handler_called_by_dotted_name_witness:
  "executeFunctionByName scenario_inherited ''admin.audit.purge'' pets_module
       ReqObject ResObject NextFunction =
     Inr \<lparr>callee = 3, this_object = Some (Object [(''purge'', Function 3)]),
          call_arguments = [ReqObject, ResObject, NextFunction]\<rparr> \<and>
   executeFunctionByName scenario_inherited ''listPets'' pets_module
       ReqObject ResObject NextFunction =
     Inr \<lparr>callee = 1, this_object = Some pets_module,
          call_arguments = [ReqObject, ResObject, NextFunction]\<rparr> \<and>
   OASRouter scenario_inherited scenario_load ''./controllers''
       \<lparr>req_method = ''DELETE'', req_path = ''/pets''\<rparr> petstore ''/pets'' =
     Inr \<lparr>resolved_controller = ''PetsController'', resolved_opID = ''admin.audit.purge'',
          interceptor_method = ''delete'',
          handler_call =
            \<lparr>callee = 3, this_object = Some (Object [(''purge'', Function 3)]),
             call_arguments = [ReqObject, ResObject, NextFunction]\<rparr>\<rparr>"
proof -
  let ?request = "\<lparr>req_method = ''DELETE'', req_path = ''/pets''\<rparr>"
  have lowered: "toLowerCase (req_method ?request) = ''delete''"
    by (simp add: naming_defs)
  have resolved: "resolveController scenario_load ''./controllers'' ?request petstore ''/pets''
      (toLowerCase (req_method ?request)) = Inr ''PetsController''"
    unfolding lowered by (simp add: resolveController_def operation_at_def petstore_def)
  have named: "generateOpId petstore ''/pets'' (toLowerCase (req_method ?request)) =
      Inr (joined_by ''.'' ([''admin'', ''audit''] @ [''purge'']))"
    unfolding lowered by (simp add: generateOpId_def operation_at_def petstore_def)
  have loads: "scenario_load ''./controllers'' ''PetsController'' = Some pets_module"
    by (simp add: scenario_load_def)
  show ?thesis
    using resolved named loads lowered
      handler_called_by_dotted_name [where namespaces = "[''admin'', ''audit'']"
        and func = "''purge''" and controller = pets_module
        and props = "[(''purge'', Function 3)]" and f = 3
        and opID = "''listPets''"
        and cprops = "[(''listPets'', Function 1), (''deletePets'', Function 2),
            (''admin'', Object [(''audit'', Object [(''purge'', Function 3)])])]"
        and g = 1 and req = ReqObject and res = ResObject
        and inherited = scenario_inherited and load = scenario_load
        and controllers = "''./controllers''" and request = ?request and oasDoc = petstore
        and requestedSpecPath = "''/pets''" and controllerName = "''PetsController''"
        and walked = "[''admin'', ''audit'']" and leaf = "''purge''"
        and loaded = pets_module and lprops = "[(''purge'', Function 3)]" and h = 3]
    by (simp add: pets_module_def)
qed

subsection \<open>Schema failures in strict mode\<close>

text \<open>
  C3. When the response declared for the status code has a JSON schema, the payload parsed
  back from its serialization fails validation, and strict mode is on: an error is logged,
  the status code is set to 400, and the original send is called with the JSON
  serialization of \<^verbatim>\<open>{message, content}\<close> in the place of the payload, where the
  message is \<^verbatim>\<open>"Wrong data in the response. "\<close> followed by the validator's messages
  joined by \<^verbatim>\<open>". "\<close> and the content is the parsed payload. (The wrapped send was
  called with a value: in a call with none, index 0 is \<^verbatim>\<open>undefined\<close> and
  \<^verbatim>\<open>JSON.parse\<close> raises.)
\<close>

theorem strict_schema_failure:
  assumes "responseCodeSection oasDoc requestedSpecPath method (statusCode s) = Inr (Some section)"
    and "content section = Some media"
    and "map_of media ''application/json'' = Some json"
    and "schema json = Some validSchema"
    and "given arguments = a # others"
    and "parse cfg (js_to_string (index0 arguments)) = Some data"
    and "validate cfg data validSchema = Some err"
    and "strict cfg"
  shows "\<exists>s'. checkResponse cfg oasDoc method requestedSpecPath arguments s = Done s' \<and>
           statusCode s' = 400 \<and>
           sent s' = sent s @ [(400, Arguments (stringify cfg (JObj
              [(''message'', JStr (''Wrong data in the response. ''
                   @ joined_by ''. '' (map message err))),
               (''content'', data)])) others)] \<and>
           logged s' = logged (debug_lines (statusCode s) method requestedSpecPath
                 (index0 arguments) s)
              @ [(Info, ''Schema to use for validation: ''
                    @ js_to_string (stringify cfg validSchema)),
                 (Error, ''Wrong data in the response. ''
                    @ joined_by ''. '' (map message err))]"
  using assms by (simp add: check_defs schema_value_def processErr_joined)

theorem strict_schema_failure_witness:
  "\<exists>s'. checkResponse (scenario_env True) petstore ''get'' ''/pets''
           \<lparr>given = [JObj [(''id'', JStr ''x'')]], index0 = Some ''{\"id\":\"x\"}''\<rparr>
           (fresh_response 200) = Done s' \<and>
        statusCode s' = 400 \<and>
        sent s' = [(400, Arguments (Some ''{\"message\":\"Wrong data in the response. Expected type number but found type string\",\"content\":{\"id\":\"x\"}}'') [])] \<and>
        last (logged s') =
          (Error, ''Wrong data in the response. Expected type number but found type string'')"
proof -
  let ?json = "\<lparr>schema = Some id_schema\<rparr>"
  let ?media = "[(''application/json'', ?json)]"
  let ?arguments = "\<lparr>given = [JObj [(''id'', JStr ''x'')]], index0 = Some ''{\"id\":\"x\"}''\<rparr>"
  have declared:
    "responseCodeSection petstore ''/pets'' ''get'' (statusCode (fresh_response 200))
       = Inr (Some \<lparr>content = Some ?media\<rparr>)"
    by (simp add: scenario_defs lookup_defs)
  have fails: "validate (scenario_env True) (JObj [(''id'', JStr ''x'')]) id_schema
       = Some [\<lparr>message = ''Expected type number but found type string''\<rparr>]"
    by (simp add: scenario_defs)
  have parsed: "parse (scenario_env True) (js_to_string (index0 ?arguments))
       = Some (JObj [(''id'', JStr ''x'')])"
    by (simp add: scenario_defs)
  have called: "given ?arguments = JObj [(''id'', JStr ''x'')] # []"
    by simp
  show ?thesis
    using strict_schema_failure [OF declared _ _ _ called parsed fails, of ?media ?json]
    by (auto simp add: scenario_env_def scenario_stringify_def id_schema_def fresh_response_def)
qed

subsection \<open>The payload that is sent\<close>

text \<open>
  C6. With strict mode off, whatever the status code and whatever the validator reports,
  what reaches the original send is what the interceptor made of the call: the
  serialization of the controller's payload, as it is, followed by the other arguments
  (and no argument for a call with none). So it is in either mode when validation
  succeeds, where the send is called once and the status code is not touched.
\<close>

theorem original_payload_sent:
  "(\<not> strict cfg \<longrightarrow>
      (case res_send cfg oasDoc method requestedSpecPath args s of
         Done s' \<Rightarrow>
           sent s' = sent s @ [(statusCode s,
             (case args of
                [] \<Rightarrow> NoArgument
              | payload # others \<Rightarrow> Arguments (stringify cfg payload) others))]
       | Threw e s' \<Rightarrow> sent s' = sent s)) \<and>
   ((\<exists>section media json data.
       responseCodeSection oasDoc requestedSpecPath method (statusCode s) = Inr (Some section) \<and>
       content section = Some media \<and>
       map_of media ''application/json'' = Some json \<and>
       parse cfg (js_to_string (stringify cfg (first_argument args))) = Some data \<and>
       validate cfg data (schema_value json) = None) \<longrightarrow>
      (\<exists>s'. res_send cfg oasDoc method requestedSpecPath args s = Done s' \<and>
         sent s' = sent s @ [(statusCode s,
           (case args of
              [] \<Rightarrow> NoArgument
            | payload # others \<Rightarrow> Arguments (stringify cfg payload) others))] \<and>
         statusCode s' = statusCode s))"
  by (auto simp add: res_send_def check_defs first_argument_def
      split: sum.splits option.splits list.splits)

theorem original_payload_sent_witness:
  "(\<exists>s'. res_send (scenario_env False) petstore ''get'' ''/pets'' [JObj [(''id'', JStr ''x'')]]
            (fresh_response 200) = Done s' \<and>
         sent s' = [(200, Arguments (Some ''{\"id\":\"x\"}'') [])]) \<and>
   (\<exists>s'. res_send (scenario_env True) petstore ''get'' ''/pets'' [JObj [(''id'', JNum 7)]]
            (fresh_response 200) = Done s' \<and>
         sent s' = [(200, Arguments (Some ''{\"id\":7}'') [])] \<and> statusCode s' = 200)"
proof -
  have returns: "\<exists>s'. res_send (scenario_env False) petstore ''get'' ''/pets''
      [JObj [(''id'', JStr ''x'')]] (fresh_response 200) = Done s'"
    by (simp add: res_send_def check_defs scenario_defs lookup_defs)
  have succeeds: "\<exists>section media json data.
       responseCodeSection petstore ''/pets'' ''get'' (statusCode (fresh_response 200))
         = Inr (Some section) \<and>
       content section = Some media \<and>
       map_of media ''application/json'' = Some json \<and>
       parse (scenario_env True)
         (js_to_string (stringify (scenario_env True)
            (first_argument [JObj [(''id'', JNum 7)]]))) = Some data \<and>
       validate (scenario_env True) data (schema_value json) = None"
    by (simp add: scenario_defs lookup_defs)
  show ?thesis
    using returns succeeds
      original_payload_sent [of "scenario_env False" "fresh_response 200"
        "[JObj [(''id'', JStr ''x'')]]" petstore "''get''" "''/pets''"]
      original_payload_sent [of "scenario_env True" "fresh_response 200"
        "[JObj [(''id'', JNum 7)]]" petstore "''get''" "''/pets''"]
    by (auto simp add: scenario_env_def scenario_stringify_def id_schema_def fresh_response_def)
qed

subsection \<open>The status code\<close>




subsection \<open>Where the code departs from the specification\<close>

text \<open>
  C1. The interceptor does not call the original send on every path. For a declared
  response whose content has no \<^verbatim>\<open>application/json\<close> entry, the wrapped send raises a
  TypeError before any call of the original send, whatever it is called with and whatever
  the strictness setting.
\<close>

theorem send_skipped_without_json_media:
  "res_send cfg petstore ''get'' ''/notes'' args (fresh_response 200) =
     Threw TypeError
       (debug_lines 200 ''get'' ''/notes'' (stringify cfg (first_argument args))
          (header ''Content-Type'' ''application/json;charset=utf-8'' (fresh_response 200))) \<and>
   sent (state_of (res_send cfg petstore ''get'' ''/notes'' args (fresh_response 200))) = []"
  by (simp add: res_send_def check_defs petstore_def fresh_response_def lookup_defs)

text \<open>
  C2. For an undeclared status code in strict mode the replacement is assigned to index 0
  of the \<^verbatim>\<open>arguments\<close> object, but a call of the wrapped send made with no value has
  length 0, so \<^verbatim>\<open>apply\<close> passes no argument: \<^verbatim>\<open>res.status(404).send()\<close> logs the
  error and calls the original send without the replacement. A call with a value passes
  it.
\<close>

theorem replacement_dropped_without_argument:
  "sent (state_of (res_send (scenario_env True) petstore ''get'' ''/pets'' []
      (fresh_response 404))) = [(404, NoArgument)] \<and>
   last (logged (state_of (res_send (scenario_env True) petstore ''get'' ''/pets'' []
      (fresh_response 404)))) = (Error, ''Wrong response code: 404'') \<and>
   sent (state_of (res_send (scenario_env True) petstore ''get'' ''/pets'' [JObj []]
      (fresh_response 404))) =
     [(404, Arguments (Some ''{\"message\":\"Wrong response code: 404\"}'') [])]"
  by (simp add: res_send_def check_defs scenario_defs lookup_defs)

text \<open>
  C4. The controller that is probed and the controller that is used are named from
  different paths. For the request \<^verbatim>\<open>GET /acme/items\<close> on the template
  \<^verbatim>\<open>/{tenant}/items\<close> the probe finds \<^verbatim>\<open>AcmeController\<close>, the name resolved is
  \<^verbatim>\<open>{tenant}Controller\<close>, and since no such module exists the dispatch ends the
  process.
\<close>

theorem probed_name_is_not_resolved_name:
  "generateControllerName (req_path \<lparr>req_method = ''GET'', req_path = ''/acme/items''\<rparr>) =
     Inr ''AcmeController'' \<and>
   existsController scenario_load ''./controllers'' ''AcmeController'' \<and>
   resolveController scenario_load ''./controllers''
     \<lparr>req_method = ''GET'', req_path = ''/acme/items''\<rparr> petstore ''/{tenant}/items'' ''get'' =
     Inr ''{tenant}Controller'' \<and>
   OASRouter inherited scenario_load ''./controllers''
     \<lparr>req_method = ''GET'', req_path = ''/acme/items''\<rparr> petstore ''/{tenant}/items'' =
     Inl ProcessExit"
  by (simp add: OASRouter_def resolveController_def existsController_def scenario_load_def
      naming_defs operation_at_def petstore_def Let_def)

text \<open>
  C5. The dispatch lowers the method before it names the operation, so a
  \<^verbatim>\<open>GET\<close> with no \<^verbatim>\<open>operationId\<close> resolves to \<^verbatim>\<open>"delete" + resourceName\<close>: for
  \<^verbatim>\<open>GET /pets\<close> the handler called is \<^verbatim>\<open>deletePets\<close>, though the controller has a
  \<^verbatim>\<open>listPets\<close>.
\<close>

theorem get_dispatches_to_delete:
  "OASRouter inherited scenario_load ''./controllers''
     \<lparr>req_method = ''GET'', req_path = ''/pets''\<rparr> petstore ''/pets'' =
     Inr \<lparr>resolved_controller = ''PetsController'', resolved_opID = ''deletePets'',
          interceptor_method = ''get'',
          handler_call = \<lparr>callee = 2, this_object = Some pets_module,
             call_arguments = [ReqObject, ResObject, NextFunction]\<rparr>\<rparr> \<and>
   get_property inherited (Some pets_module) ''listPets'' = Inr (Some (Function 1))"
  by (simp add: OASRouter_def resolveController_def existsController_def scenario_load_def
      naming_defs operation_at_def petstore_def pets_module_def executeFunctionByName_def Let_def)

text \<open>
  C8. A declared response with no schema for \<^verbatim>\<open>application/json\<close> is not always
  passed through. When its content is \<^verbatim>\<open>text/plain\<close> only, the check raises a
  TypeError at the read of \<^verbatim>\<open>content['application/json'].schema\<close> and never calls the
  original send. When its \<^verbatim>\<open>application/json\<close> entry has no schema, the validator is
  called with \<^verbatim>\<open>undefined\<close> for the schema, and on its error strict mode replaces the
  payload and sets the status code to 400.
\<close>

theorem no_json_schema_not_passed_through:
  "responseCodeSection petstore ''/notes'' ''get'' (statusCode (fresh_response 200)) =
     Inr (Some \<lparr>content = Some [(''text/plain'',
                  \<lparr>schema = Some (JObj [(''type'', JStr ''string'')])\<rparr>)]\<rparr>) \<and>
   map_of [(''text/plain'', \<lparr>schema = Some (JObj [(''type'', JStr ''string'')])\<rparr>)]
     ''application/json'' = None \<and>
   checkResponse (scenario_env False) petstore ''get'' ''/notes''
     \<lparr>given = [JStr ''hello''], index0 = Some ''\"hello\"''\<rparr> (fresh_response 200) =
     Threw TypeError (debug_lines 200 ''get'' ''/notes'' (Some ''\"hello\"'') (fresh_response 200)) \<and>
   sent (state_of (checkResponse (scenario_env False) petstore ''get'' ''/notes''
     \<lparr>given = [JStr ''hello''], index0 = Some ''\"hello\"''\<rparr> (fresh_response 200))) = [] \<and>
   responseCodeSection petstore ''/notes'' ''post'' (statusCode (fresh_response 200)) =
     Inr (Some \<lparr>content = Some [(''application/json'', \<lparr>schema = None\<rparr>)]\<rparr>) \<and>
   sent (state_of (checkResponse (scenario_env True) petstore ''post'' ''/notes''
     \<lparr>given = [JObj []], index0 = Some ''{}''\<rparr> (fresh_response 200))) =
     [(400, Arguments (Some ''{\"message\":\"Wrong data in the response. \",\"content\":{}}'') [])]"
  by (simp add: check_defs scenario_defs lookup_defs processErr_joined)

end
